theory Spec2Isabelle
  imports Main
begin

section \<open>Python strings and the string methods the renderer uses\<close>

text \<open>
  A Python \<open>str\<close> is modelled as a \<open>string\<close>; a \<open>char\<close> stands for the code point of
  the same number (0 to 255).  The functions of this section are the built-ins that
  \<open>fluxy.py\<close> calls: \<open>str.join\<close>, \<open>str.split\<close>, \<open>str.strip\<close>, \<open>str.lower\<close>,
  \<open>str.capitalize\<close>, the decimal text of an \<open>int\<close> and \<open>%0wd\<close> padding.
\<close>

text \<open>\<open>sep.join(xs)\<close>\<close>

fun join :: "string \<Rightarrow> string list \<Rightarrow> string" where
  "join sep [] = []"
| "join sep [x] = x"
| "join sep (x # y # ys) = x @ sep @ join sep (y # ys)"

text \<open>\<open>s.split(c)\<close> for a separator of one character: always at least one part.\<close>

fun split :: "char \<Rightarrow> string \<Rightarrow> string list" where
  "split c [] = [[]]"
| "split c (x # xs) =
     (if x = c then [] # split c xs
      else (case split c xs of p # ps \<Rightarrow> (x # p) # ps | [] \<Rightarrow> [[x]]))"

text \<open>The code points below 256 for which \<open>str.isspace\<close> holds.\<close>

definition isspace :: "char \<Rightarrow> bool" where
  "isspace c = (of_char c \<in> {9, 10, 11, 12, 13, 28, 29, 30, 31, 32, 133, 160 :: nat})"

text \<open>\<open>s.strip()\<close>\<close>

definition strip :: "string \<Rightarrow> string" where
  "strip s = rev (dropWhile isspace (rev (dropWhile isspace s)))"

text \<open>\<open>str.lower\<close> and \<open>str.upper\<close> of one character, on the ASCII letters (every name
  the renderer changes the case of is a Python identifier of \<open>fluxy.py\<close>).\<close>

definition lower_char :: "char \<Rightarrow> char" where
  "lower_char c =
     (let n = (of_char c :: nat) in if 65 \<le> n \<and> n \<le> 90 then char_of (n + 32) else c)"

definition upper_char :: "char \<Rightarrow> char" where
  "upper_char c =
     (let n = (of_char c :: nat) in if 97 \<le> n \<and> n \<le> 122 then char_of (n - 32) else c)"

definition lower :: "string \<Rightarrow> string" where
  "lower s = map lower_char s"

text \<open>\<open>s.capitalize()\<close>: the first character in upper case, the others in lower case.\<close>

fun capitalize :: "string \<Rightarrow> string" where
  "capitalize [] = []"
| "capitalize (c # cs) = upper_char c # lower cs"

text \<open>\<open>str(n)\<close> for an \<open>int\<close>: decimal digits, a minus sign for a negative number.\<close>

definition digit_char :: "nat \<Rightarrow> char" where
  "digit_char d = ''0123456789'' ! d"

fun digits :: "nat \<Rightarrow> string" where
  "digits n = (if n < 10 then [digit_char n] else digits (n div 10) @ [digit_char (n mod 10)])"

definition str_int :: "int \<Rightarrow> string" where
  "str_int i = (if i < 0 then CHR ''-'' # digits (nat (- i)) else digits (nat i))"

text \<open>\<open>"%0wd" % n\<close> for \<open>n \<ge> 0\<close> (the fields of a date and of a time of day are never
  negative): the digits, padded on the left with zeros to width \<open>w\<close>.\<close>

definition zero_pad :: "nat \<Rightarrow> int \<Rightarrow> string" where
  "zero_pad w n = (let s = str_int n in replicate (w - length s) CHR ''0'' @ s)"

declare digits.simps [simp del]

text \<open>\<open>dedent\<close> of \<open>fluxy.py\<close>: every line stripped.\<close>

definition dedent :: "string \<Rightarrow> string" where
  "dedent val = (let lines = split CHR 0x0A val in join ''\<newline>'' (map strip lines))"

section \<open>Errors\<close>

text \<open>
  The exceptions the code can raise: \<open>Exception("invalid types")\<close> of \<open>pipe\<close> and
  \<open>range\<close>, \<open>Exception("didn't recognize expression ...")\<close> of \<open>parse_expression\<close>,
  the \<open>TypeError\<close> of \<open>functools.reduce\<close> on an empty iterable with no initial value,
  and the \<open>TypeError\<close> of unpacking (\<open>[*xs, ...]\<close>) an object that is not iterable.
\<close>

datatype error =
    InvalidTypes
  | DidntRecognizeExpression
  | ReduceEmptyTypeError
  | NotIterableTypeError

section \<open>Clauses\<close>

datatype expression = LiteralStringExpression string

fun expression_to_flux :: "expression \<Rightarrow> string" where
  \<open>expression_to_flux (LiteralStringExpression v) = ''"'' @ v @ ''"''\<close>

datatype binary_operation = OR | AND

fun binary_operation_value :: "binary_operation \<Rightarrow> string" where
  "binary_operation_value OR = ''or''"
| "binary_operation_value AND = ''and''"

datatype comparison_operation = EQ | NE

fun comparison_operation_value :: "comparison_operation \<Rightarrow> string" where
  "comparison_operation_value EQ = ''==''"
| "comparison_operation_value NE = ''!=''"

datatype clause =
    LiteralClause bool
  | BinaryClause binary_operation clause clause
  | ComparisonClause comparison_operation string expression

definition bool_to_flux :: "bool \<Rightarrow> string" where
  "bool_to_flux val = (if val then ''true'' else ''false'')"

fun precedence :: "clause \<Rightarrow> int" where
  "precedence (LiteralClause b) = 0"
| "precedence (BinaryClause AND l r) = 9"
| "precedence (BinaryClause OR l r) = 10"
| "precedence (ComparisonClause op n e) = 7"

definition should_parenthesize :: "clause \<Rightarrow> clause \<Rightarrow> bool" where
  "should_parenthesize self other = (precedence self < precedence other)"

text \<open>
  \<open>to_flux\<close> of the three clause classes and \<open>Clause.ensure_precedence\<close>, which calls
  \<open>to_flux\<close> of the side it is given.
\<close>

function clause_to_flux :: "clause \<Rightarrow> string"
  and ensure_precedence :: "clause \<Rightarrow> clause \<Rightarrow> string" where
  "clause_to_flux (LiteralClause b) = bool_to_flux b"
| "clause_to_flux (BinaryClause op l r) =
     ensure_precedence (BinaryClause op l r) l @ '' '' @ binary_operation_value op @ '' ''
       @ ensure_precedence (BinaryClause op l r) r"
| \<open>clause_to_flux (ComparisonClause op n e) =
     ''r["'' @ n @ ''"] '' @ comparison_operation_value op @ '' '' @ expression_to_flux e\<close>
| "ensure_precedence self other =
     (if should_parenthesize self other then ''('' @ clause_to_flux other @ '')''
      else clause_to_flux other)"
  by pat_completeness auto
termination
  by (relation "measure (\<lambda>x. case x of Inl c \<Rightarrow> 2 * size c
                                    | Inr (self, other) \<Rightarrow> 2 * size other + 1)") auto

section \<open>Durations and timestamps\<close>

text \<open>
  \<open>datetime.timedelta\<close> keeps three normalised attributes: \<open>days\<close>, \<open>seconds\<close>
  (0 to 86399) and \<open>microseconds\<close> (0 to 999999).
\<close>

record timedelta =
  days :: int
  seconds :: int
  microseconds :: int

text \<open>
  The constructor \<open>timedelta(days, seconds, microseconds, milliseconds, minutes, hours,
  weeks)\<close> on integer arguments: the sum is normalised, and more than 999999999 days
  either way is an \<open>OverflowError\<close> (here \<open>None\<close>).
\<close>

definition timedelta_new ::
  "int \<Rightarrow> int \<Rightarrow> int \<Rightarrow> int \<Rightarrow> int \<Rightarrow> int \<Rightarrow> int \<Rightarrow> timedelta option" where
  "timedelta_new d s us ms mi h w =
     (let total = us + 1000 * ms + 1000000 * (s + 60 * mi + 3600 * h + 86400 * (d + 7 * w));
          dd = total div 86400000000;
          r = total mod 86400000000
      in if \<bar>dd\<bar> > 999999999 then None
         else Some \<lparr>days = dd, seconds = r div 1000000, microseconds = r mod 1000000\<rparr>)"

text \<open>
  A \<open>datetime.datetime\<close>; \<open>tzinfo\<close> is \<open>None\<close> for a naive timestamp and the fixed
  offset from UTC otherwise (\<open>timezone.utc\<close> is the offset zero).
\<close>

record datetime =
  year :: int
  month :: int
  day :: int
  hour :: int
  minute :: int
  second :: int
  microsecond :: int
  tzinfo :: "timedelta option"

definition total_microseconds :: "timedelta \<Rightarrow> int" where
  "total_microseconds t = (days t * 86400 + seconds t) * 1000000 + microseconds t"

text \<open>
  \<open>datetime.isoformat()\<close> with its default arguments:
  \<open>YYYY-MM-DDTHH:MM:SS\<close>, then \<open>.ffffff\<close> when the microsecond is not zero, then the
  offset \<open>+HH:MM\<close> (with \<open>:SS\<close> and \<open>.ffffff\<close> when they are not zero) when there is one.
\<close>

definition format_offset :: "timedelta option \<Rightarrow> string" where
  "format_offset off =
     (case off of
        None \<Rightarrow> []
      | Some t \<Rightarrow>
          (let sign = (if days t < 0 then ''-'' else ''+'');
               a = (if days t < 0 then - total_microseconds t else total_microseconds t);
               hh = a div 3600000000;
               r = a mod 3600000000;
               mm = r div 60000000;
               ss = r mod 60000000
           in sign @ zero_pad 2 hh @ '':'' @ zero_pad 2 mm
              @ (if ss \<noteq> 0
                 then '':'' @ zero_pad 2 (ss div 1000000)
                      @ (if ss mod 1000000 \<noteq> 0 then ''.'' @ zero_pad 6 (ss mod 1000000) else [])
                 else [])))"

definition isoformat :: "datetime \<Rightarrow> string" where
  "isoformat d =
     zero_pad 4 (year d) @ ''-'' @ zero_pad 2 (month d) @ ''-'' @ zero_pad 2 (day d) @ ''T''
     @ zero_pad 2 (hour d) @ '':'' @ zero_pad 2 (minute d) @ '':'' @ zero_pad 2 (second d)
     @ (if microsecond d \<noteq> 0 then ''.'' @ zero_pad 6 (microsecond d) else [])
     @ format_offset (tzinfo d)"

section \<open>Values of stage fields and the generic stages\<close>

datatype window_operation = MEAN | LAST | SUM_py

fun window_operation_value :: "window_operation \<Rightarrow> string" where
  "window_operation_value MEAN = ''mean''"
| "window_operation_value LAST = ''last''"
| "window_operation_value SUM_py = ''sum''"

datatype order = DESC | ASC

fun order_value :: "order \<Rightarrow> string" where
  "order_value DESC = ''desc''"
| "order_value ASC = ''asc''"

text \<open>The members of the four \<open>Enum\<close> classes of \<open>fluxy.py\<close>, and \<open>member.value\<close>.\<close>

datatype enum_member =
    BinaryOperation binary_operation
  | ComparisonOperation comparison_operation
  | Order order
  | WindowOperation window_operation

fun enum_value :: "enum_member \<Rightarrow> string" where
  "enum_value (BinaryOperation b) = binary_operation_value b"
| "enum_value (ComparisonOperation c) = comparison_operation_value c"
| "enum_value (Order o') = order_value o'"
| "enum_value (WindowOperation w) = window_operation_value w"

text \<open>
  The Python values a field of a stage can hold.  A dataclass does not check the type of
  a field, so next to the six kinds \<open>PipedFunction._to_flux\<close> has a case for (\<open>str\<close>,
  \<open>bool\<close>, \<open>list\<close> of \<open>str\<close>, \<open>timedelta\<close>, \<open>datetime\<close>, \<open>Enum\<close>) the model has
  \<open>None\<close>, \<open>int\<close> and a \<open>tuple\<close> of \<open>str\<close>, for which it has none.
\<close>

datatype pyvalue =
    VStr string
  | VBool bool
  | VList "string list"
  | VTimedelta timedelta
  | VDatetime datetime
  | VEnum enum_member
  | VNone
  | VInt int
  | VTuple "string list"

text \<open>\<open>PipedFunction._list_to_flux\<close>\<close>

definition list_to_flux :: "string list \<Rightarrow> string" where
  \<open>list_to_flux list = ''['' @ join '', '' (map (\<lambda>key. ''"'' @ key @ ''"'') list) @ '']''\<close>

text \<open>\<open>_part\<close> and \<open>PipedFunction._timedelta_to_flux\<close>\<close>

definition part :: "int \<Rightarrow> string \<Rightarrow> string" where
  "part value unit = (if value \<noteq> 0 then str_int value @ unit else [])"

definition timedelta_to_flux :: "timedelta \<Rightarrow> string" where
  "timedelta_to_flux every =
     join [] [part (days every) ''d'', part (seconds every) ''s'', part (microseconds every) ''us'']"

text \<open>
  \<open>PipedFunction._to_flux\<close>.  The \<open>match\<close> has no default case: a value that no case
  matches falls off its end and the function returns Python's \<open>None\<close>, here \<open>None\<close>.
  No branch raises.
\<close>

fun value_to_flux :: "pyvalue \<Rightarrow> string option" where
  \<open>value_to_flux (VStr v) = Some (''"'' @ v @ ''"'')\<close>
| "value_to_flux (VBool v) = Some (bool_to_flux v)"
| "value_to_flux (VList v) = Some (list_to_flux v)"
| "value_to_flux (VTimedelta v) = Some (timedelta_to_flux v)"
| "value_to_flux (VDatetime v) = Some (isoformat v)"
| "value_to_flux (VEnum v) = Some (enum_value v)"
| "value_to_flux _ = None"

text \<open>What an f-string writes for the result of \<open>_to_flux\<close>: \<open>None\<close> is written \<open>None\<close>.\<close>

fun format_result :: "string option \<Rightarrow> string" where
  "format_result None = ''None''"
| "format_result (Some s) = s"

text \<open>\<open>PipedFunction._snakecase_to_camelcase\<close>\<close>

definition snakecase_to_camelcase :: "string \<Rightarrow> string" where
  "snakecase_to_camelcase val =
     (let upper_camel_case = join [] (map capitalize (split CHR ''_'' val))
      in lower (take 1 upper_camel_case) @ drop 1 upper_camel_case)"

text \<open>
  The dataclasses that inherit \<open>PipedFunction\<close>, with their fields in the order of
  declaration.
\<close>

datatype piped_function =
    Range pyvalue pyvalue
  | RangeOffset pyvalue
  | Pivot pyvalue pyvalue pyvalue
  | AggregateWindow pyvalue pyvalue pyvalue
  | Drop pyvalue
  | Keep pyvalue

fun class_name :: "piped_function \<Rightarrow> string" where
  "class_name (Range a b) = ''Range''"
| "class_name (RangeOffset a) = ''RangeOffset''"
| "class_name (Pivot a b c) = ''Pivot''"
| "class_name (AggregateWindow a b c) = ''AggregateWindow''"
| "class_name (Drop a) = ''Drop''"
| "class_name (Keep a) = ''Keep''"

text \<open>\<open>fields(self.__class__)\<close> with \<open>getattr(self, field.name)\<close> for each.\<close>

fun fields :: "piped_function \<Rightarrow> (string \<times> pyvalue) list" where
  "fields (Range a b) = [(''start'', a), (''stop'', b)]"
| "fields (RangeOffset a) = [(''start'', a)]"
| "fields (Pivot a b c) = [(''row_key'', a), (''column_key'', b), (''value_column'', c)]"
| "fields (AggregateWindow a b c) = [(''every'', a), (''fn'', b), (''create_empty'', c)]"
| "fields (Drop a) = [(''columns'', a)]"
| "fields (Keep a) = [(''columns'', a)]"

text \<open>The property \<open>function\<close>, which \<open>RangeOffset\<close> overrides.\<close>

fun function_name :: "piped_function \<Rightarrow> string" where
  "function_name (RangeOffset a) = ''range''"
| "function_name self = (let name = class_name self in lower (take 1 name) @ drop 1 name)"

text \<open>\<open>PipedFunction.to_flux\<close>\<close>

definition piped_to_flux :: "piped_function \<Rightarrow> string" where
  "piped_to_flux self =
     (let arguments =
            map (\<lambda>(name, v). snakecase_to_camelcase name @ '': '' @ format_result (value_to_flux v))
              (fields self)
      in dedent (function_name self @ ''('' @ join '', '' arguments @ '')''))"

text \<open>
  \<open>range\<close>: \<open>stop\<close> is \<open>VNone\<close> when the caller gives one argument.
\<close>

fun range_py :: "pyvalue \<Rightarrow> pyvalue \<Rightarrow> error + piped_function" where
  "range_py (VTimedelta t) stop = Inr (RangeOffset (VTimedelta t))"
| "range_py (VDatetime d) stop =
     (if stop \<noteq> VNone then Inr (Range (VDatetime d) stop) else Inl InvalidTypes)"
| "range_py start stop = Inl InvalidTypes"

section \<open>Sources, operations and pipes\<close>

text \<open>The dataclass \<open>From\<close>, and \<open>from_bucket\<close>.\<close>

datatype source = From (bucket: string)

definition from_to_flux :: "source \<Rightarrow> string" where
  \<open>from_to_flux self = ''from(bucket: "'' @ bucket self @ ''")''\<close>

definition from_bucket :: "string \<Rightarrow> source" where
  "from_bucket b = From b"

text \<open>
  The objects of \<open>fluxy.py\<close> with a method \<open>to_flux\<close> that a pipe can hold (the
  protocol \<open>Operation\<close>): \<open>From\<close>, the subclasses of \<open>PipedFunction\<close>, \<open>Filter\<close>, \<open>Map\<close>,
  \<open>Sum\<close>, \<open>Mean\<close>, \<open>Last\<close>, \<open>Limit\<close>, \<open>Sort\<close> and \<open>Literal\<close>.
\<close>

datatype operation =
    OpFrom source
  | OpPiped piped_function
  | OpFilter clause
  | OpMap string
  | OpSum string
  | OpMean string
  | OpLast
  | OpLimit int int
  | OpSort "string list" order
  | OpLiteral string

text \<open>\<open>to_flux\<close> of each of these classes.\<close>

fun operation_to_flux :: "operation \<Rightarrow> string" where
  "operation_to_flux (OpFrom s) = from_to_flux s"
| "operation_to_flux (OpPiped f) = piped_to_flux f"
| "operation_to_flux (OpFilter c) = dedent (''filter(fn: (r) => '' @ clause_to_flux c @ '')'')"
| "operation_to_flux (OpMap fn) = ''map(fn: '' @ fn @ '')''"
| \<open>operation_to_flux (OpSum column) = ''sum(column: "'' @ column @ ''")''\<close>
| \<open>operation_to_flux (OpMean column) = ''mean(column: "'' @ column @ ''")''\<close>
| "operation_to_flux OpLast = ''last()''"
| "operation_to_flux (OpLimit n offset) =
     ''limit(n: '' @ str_int n @ '', offset: '' @ str_int offset @ '')''"
| \<open>operation_to_flux (OpSort columns sort_order) =
     (let columns_string = join ''", "'' columns
      in ''sort(columns: ["'' @ columns_string @ ''"], desc: ''
         @ (if sort_order = DESC then ''true'' else ''false'') @ '')'')\<close>
| "operation_to_flux (OpLiteral e) = e"

text \<open>The dataclasses \<open>PartialPipe\<close> and \<open>Pipe\<close>.\<close>

datatype partial_pipe = PartialPipe (partial_initial: source)

datatype pipeline =
  Pipe (initial: source) (range_stage: piped_function) (operations: "operation list")

text \<open>\<open>Pipe.to_flux\<close>\<close>

definition pipe_to_flux :: "pipeline \<Rightarrow> string" where
  "pipe_to_flux self =
     (let fluxes = map operation_to_flux
                     (OpFrom (initial self) # OpPiped (range_stage self) # operations self)
      in join ''\<newline>|> '' fluxes)"

text \<open>
  \<open>pipe\<close>.  Its first argument is a \<open>From\<close>, a \<open>PartialPipe\<close> or a \<open>Pipe\<close>, and so is
  its result; the second argument is \<open>None\<close> when the caller gives none; \<open>ops\<close> are the
  arguments after the second.  The patterns \<open>Range(_) | RangeOffset(_)\<close> of the source
  are the first two constructors of \<open>piped_function\<close>.
\<close>

datatype pipe_value = VFrom source | VPartialPipe partial_pipe | VPipe pipeline

fun is_range :: "operation \<Rightarrow> bool" where
  "is_range (OpPiped (Range a b)) = True"
| "is_range (OpPiped (RangeOffset a)) = True"
| "is_range other = False"

fun pipe :: "pipe_value \<Rightarrow> operation option \<Rightarrow> operation list \<Rightarrow> error + pipe_value" where
  "pipe (VFrom fb) None ops = Inr (VPartialPipe (PartialPipe fb))"
| "pipe (VFrom fb) (Some (OpPiped (Range a b))) ops =
     Inr (VPipe (Pipe fb (Range a b) ops))"
| "pipe (VFrom fb) (Some (OpPiped (RangeOffset a))) ops =
     Inr (VPipe (Pipe fb (RangeOffset a) ops))"
| "pipe (VPartialPipe p) None ops = Inr (VPartialPipe p)"
| "pipe (VPartialPipe p) (Some (OpPiped (Range a b))) ops =
     Inr (VPipe (Pipe (partial_initial p) (Range a b) ops))"
| "pipe (VPartialPipe p) (Some (OpPiped (RangeOffset a))) ops =
     Inr (VPipe (Pipe (partial_initial p) (RangeOffset a) ops))"
| "pipe (VPipe p) None ops = Inr (VPipe p)"
| "pipe (VPipe p) (Some op) ops =
     Inr (VPipe (Pipe (initial p) (range_stage p) (operations p @ [op] @ ops)))"
| "pipe first snd_arg ops = Inl InvalidTypes"

text \<open>What \<open>to_flux\<close> gives for a result of \<open>pipe\<close>: a \<open>PartialPipe\<close> has no such method
  (and neither has an error).\<close>

fun rendering :: "error + pipe_value \<Rightarrow> string option" where
  "rendering (Inr (VPipe p)) = Some (pipe_to_flux p)"
| "rendering (Inr (VFrom s)) = Some (from_to_flux s)"
| "rendering other = None"

section \<open>Rows, fields and the predicate helpers\<close>

datatype row = Row

datatype field = Field string

text \<open>\<open>Row.__getitem__\<close> and \<open>Row.__getattr__\<close>\<close>

definition row_getitem :: "row \<Rightarrow> string \<Rightarrow> field" where
  "row_getitem r name = Field name"

fun parse_expression :: "pyvalue \<Rightarrow> error + expression" where
  "parse_expression (VStr v) = Inr (LiteralStringExpression v)"
| "parse_expression v = Inl DidntRecognizeExpression"

text \<open>\<open>Field.__eq__\<close> and \<open>Field.__ne__\<close>\<close>

fun field_eq :: "field \<Rightarrow> pyvalue \<Rightarrow> error + clause" where
  "field_eq (Field name) other =
     (case parse_expression other of
        Inl e \<Rightarrow> Inl e
      | Inr x \<Rightarrow> Inr (ComparisonClause EQ name x))"

fun field_ne :: "field \<Rightarrow> pyvalue \<Rightarrow> error + clause" where
  "field_ne (Field name) other =
     (case parse_expression other of
        Inl e \<Rightarrow> Inl e
      | Inr x \<Rightarrow> Inr (ComparisonClause NE name x))"

text \<open>\<open>Clausable = Clause | bool\<close>, and \<open>Clause.parse\<close>, \<open>__or__\<close>, \<open>__and__\<close>.\<close>

datatype clausable = CBool bool | CClause clause

fun parse :: "clausable \<Rightarrow> clause" where
  "parse (CBool v) = LiteralClause v"
| "parse (CClause v) = v"

definition clause_or :: "clause \<Rightarrow> clausable \<Rightarrow> clause" where
  "clause_or self other = BinaryClause OR self (parse other)"

definition clause_and :: "clause \<Rightarrow> clausable \<Rightarrow> clause" where
  "clause_and self other = BinaryClause AND self (parse other)"

text \<open>A \<open>FilterCallback\<close> takes a row and returns a \<open>Clausable\<close>, or raises.\<close>

type_synonym filter_callback = "row \<Rightarrow> error + clausable"

definition filter_py :: "filter_callback \<Rightarrow> error + operation" where
  "filter_py callback =
     (case callback Row of
        Inl e \<Rightarrow> Inl e
      | Inr v \<Rightarrow> Inr (OpFilter (parse v)))"

text \<open>
  \<open>functools.reduce(function, iterable)\<close> with no initial value, on a generator: the
  elements are computed one at a time, each may raise, and an iterable with no element
  is a \<open>TypeError\<close>.
\<close>

fun reduce_from :: "('a \<Rightarrow> 'a \<Rightarrow> 'a) \<Rightarrow> 'a \<Rightarrow> (error + 'a) list \<Rightarrow> error + 'a" where
  "reduce_from f acc [] = Inr acc"
| "reduce_from f acc (Inl e # xs) = Inl e"
| "reduce_from f acc (Inr cur # xs) = reduce_from f (f acc cur) xs"

fun reduce :: "('a \<Rightarrow> 'a \<Rightarrow> 'a) \<Rightarrow> (error + 'a) list \<Rightarrow> error + 'a" where
  "reduce f [] = Inl ReduceEmptyTypeError"
| "reduce f (Inl e # xs) = Inl e"
| "reduce f (Inr x # xs) = reduce_from f x xs"

text \<open>
  \<open>conform\<close>: the mapping is a \<open>dict\<close>, whose \<open>items()\<close> are its pairs in the order of
  insertion.  \<open>conform value\<close> is the callback that \<open>conform\<close> returns.
\<close>

definition conform :: "(string \<times> pyvalue) list \<Rightarrow> filter_callback" where
  "conform value = (\<lambda>row.
     (case reduce (\<lambda>acc cur. clause_and acc (CClause cur))
             (map (\<lambda>(key, v). field_eq (row_getitem row key) v) value) of
        Inl e \<Rightarrow> Inl e
      | Inr c \<Rightarrow> Inr (CClause c)))"

text \<open>\<open>any\<close> (also named \<open>some\<close>)\<close>

definition any_py :: "('a \<Rightarrow> filter_callback) \<Rightarrow> 'a list \<Rightarrow> filter_callback" where
  "any_py test values = (\<lambda>row.
     (case reduce (\<lambda>acc cur. clause_or acc (CClause cur))
             (map (\<lambda>v. case test v row of Inl e \<Rightarrow> Inl e | Inr c \<Rightarrow> Inr (parse c)) values) of
        Inl e \<Rightarrow> Inl e
      | Inr c \<Rightarrow> Inr (CClause c)))"

section \<open>Pipes as objects in a store\<close>

text \<open>
  Python passes references: \<open>pipe\<close> receives the addresses of its arguments and returns
  the address of its result.  To say which objects a call creates and which it leaves
  alone, the store is explicit here.  An address is an index into the list of the objects
  allocated so far, and allocation appends.  A \<open>Pipe\<close> holds three references (its
  source, its range, its list of operations), a \<open>PartialPipe\<close> one, a list holds the
  references to its elements; \<open>From\<close> and the stages, which \<open>pipe\<close> only tests the
  class of, are kept by value.
\<close>

type_synonym addr = nat

datatype obj =
    ObjStage operation
  | ObjPartialPipe addr
  | ObjPipe addr addr addr
  | ObjList "addr list"

type_synonym store = "obj list"

definition lookup :: "store \<Rightarrow> addr \<Rightarrow> obj option" where
  "lookup h a = (if a < length h then Some (h ! a) else None)"

definition alloc :: "store \<Rightarrow> obj \<Rightarrow> store \<times> addr" where
  "alloc h x = (h @ [x], length h)"

text \<open>The pattern \<open>Range(_) | RangeOffset(_)\<close> on the object at an address.\<close>

fun is_range_obj :: "obj option \<Rightarrow> bool" where
  "is_range_obj (Some (ObjStage s)) = is_range s"
| "is_range_obj other = False"

text \<open>\<open>Pipe(initial, range, list)\<close>: the list is a new object, and so is the pipe.\<close>

definition new_pipe :: "store \<Rightarrow> addr \<Rightarrow> addr \<Rightarrow> addr list \<Rightarrow> store \<times> addr" where
  "new_pipe h i r xs = (let (h1, l) = alloc h (ObjList xs) in alloc h1 (ObjPipe i r l))"

text \<open>
  \<open>pipe\<close> on the store, case by case as in the source.  \<open>list(ops)\<close> and
  \<open>[*pipe.operations, op, *ops]\<close> are new lists.  An address outside the store does
  not occur in Python; the model sends it to the default case.
\<close>

definition pipe_store ::
  "store \<Rightarrow> addr \<Rightarrow> addr option \<Rightarrow> addr list \<Rightarrow> error + (store \<times> addr)" where
  "pipe_store h first snd_arg ops =
     (case lookup h first of
        Some (ObjStage (OpFrom b)) \<Rightarrow>
          (case snd_arg of
             None \<Rightarrow> Inr (alloc h (ObjPartialPipe first))
           | Some r \<Rightarrow>
               if is_range_obj (lookup h r) then Inr (new_pipe h first r ops)
               else Inl InvalidTypes)
      | Some (ObjPartialPipe i) \<Rightarrow>
          (case snd_arg of
             None \<Rightarrow> Inr (h, first)
           | Some r \<Rightarrow>
               if is_range_obj (lookup h r) then Inr (new_pipe h i r ops)
               else Inl InvalidTypes)
      | Some (ObjPipe i r l) \<Rightarrow>
          (case snd_arg of
             None \<Rightarrow> Inr (h, first)
           | Some op \<Rightarrow>
               (case lookup h l of
                  Some (ObjList xs) \<Rightarrow> Inr (new_pipe h i r (xs @ [op] @ ops))
                | _ \<Rightarrow> Inl NotIterableTypeError))
      | _ \<Rightarrow> Inl InvalidTypes)"

text \<open>
  Reading a value back from the store: the stage at an address, the stages of a list of
  addresses, and the \<open>From\<close>, \<open>PartialPipe\<close> or \<open>Pipe\<close> at an address with everything
  it refers to.
\<close>

definition stage_at :: "store \<Rightarrow> addr \<Rightarrow> operation option" where
  "stage_at h a = (case lookup h a of Some (ObjStage s) \<Rightarrow> Some s | _ \<Rightarrow> None)"

fun stages_at :: "store \<Rightarrow> addr list \<Rightarrow> operation list option" where
  "stages_at h [] = Some []"
| "stages_at h (a # as) =
     (case stage_at h a of
        None \<Rightarrow> None
      | Some s \<Rightarrow> (case stages_at h as of None \<Rightarrow> None | Some ss \<Rightarrow> Some (s # ss)))"

definition source_at :: "store \<Rightarrow> addr \<Rightarrow> source option" where
  "source_at h a = (case stage_at h a of Some (OpFrom s) \<Rightarrow> Some s | _ \<Rightarrow> None)"

definition range_at :: "store \<Rightarrow> addr \<Rightarrow> piped_function option" where
  "range_at h a = (case stage_at h a of Some (OpPiped f) \<Rightarrow> Some f | _ \<Rightarrow> None)"

definition list_at :: "store \<Rightarrow> addr \<Rightarrow> operation list option" where
  "list_at h a = (case lookup h a of Some (ObjList xs) \<Rightarrow> stages_at h xs | _ \<Rightarrow> None)"

definition value_at :: "store \<Rightarrow> addr \<Rightarrow> pipe_value option" where
  "value_at h a =
     (case lookup h a of
        Some (ObjStage (OpFrom s)) \<Rightarrow> Some (VFrom s)
      | Some (ObjPartialPipe i) \<Rightarrow>
          (case source_at h i of
             Some s \<Rightarrow> Some (VPartialPipe (PartialPipe s))
           | None \<Rightarrow> None)
      | Some (ObjPipe i r l) \<Rightarrow>
          (case (source_at h i, range_at h r, list_at h l) of
             (Some s, Some f, Some xs) \<Rightarrow> Some (VPipe (Pipe s f xs))
           | _ \<Rightarrow> None)
      | _ \<Rightarrow> None)"

text \<open>The second argument of \<open>pipe\<close> read back: \<open>None\<close>, or the stage at its address.\<close>

definition arg_at :: "store \<Rightarrow> addr option \<Rightarrow> operation option option" where
  "arg_at h a =
     (case a of
        None \<Rightarrow> Some None
      | Some x \<Rightarrow> (case stage_at h x of None \<Rightarrow> None | Some s \<Rightarrow> Some (Some s)))"

section \<open>Notions used to state the properties\<close>

text \<open>A clause built with \<open>|\<close>, that is a \<open>BinaryClause\<close> whose operation is \<open>OR\<close>.\<close>

fun is_or_clause :: "clause \<Rightarrow> bool" where
  "is_or_clause (BinaryClause OR l r) = True"
| "is_or_clause c = False"

text \<open>A text in parentheses when the flag says so.\<close>

definition parenthesized :: "bool \<Rightarrow> string \<Rightarrow> string" where
  "parenthesized b s = (if b then ''('' @ s @ '')'' else s)"

text \<open>
  Every object of the store \<open>h\<close> is in \<open>h'\<close> at the same address, unchanged (\<open>h'\<close> may
  hold more objects).
\<close>

definition preserved :: "store \<Rightarrow> store \<Rightarrow> bool" where
  "preserved h h' = (take (length h) h' = h)"

text \<open>
  \<open>pipe(x, second, *ops)\<close> where \<open>x\<close> is the result of an earlier call: an exception of
  the earlier call goes through.
\<close>

fun then_pipe ::
  "error + pipe_value \<Rightarrow> operation option \<Rightarrow> operation list \<Rightarrow> error + pipe_value" where
  "then_pipe (Inl e) snd_arg ops = Inl e"
| "then_pipe (Inr v) snd_arg ops = pipe v snd_arg ops"

text \<open>
  \<open>timezone.utc\<close>, and \<open>datetime(year, month, day, tzinfo=tz)\<close> with the time of day
  left at its default, midnight.
\<close>

definition timezone_utc :: timedelta where
  "timezone_utc = \<lparr>days = 0, seconds = 0, microseconds = 0\<rparr>"

definition datetime_new :: "int \<Rightarrow> int \<Rightarrow> int \<Rightarrow> timedelta option \<Rightarrow> datetime" where
  "datetime_new y m d tz =
     \<lparr>year = y, month = m, day = d, hour = 0, minute = 0, second = 0, microsecond = 0,
      tzinfo = tz\<rparr>"

text \<open>A value that is a \<open>str\<close>.\<close>

fun is_str :: "pyvalue \<Rightarrow> bool" where
  "is_str (VStr s) = True"
| "is_str v = False"

text \<open>
  \<open>timedelta(days=-7)\<close>, and a store for an example: a source, a relative range, a list
  of one operation, the \<open>Pipe\<close> made of the three, and three operations.
\<close>

definition week_ago :: timedelta where
  "week_ago = \<lparr>days = - 7, seconds = 0, microseconds = 0\<rparr>"

definition example_store :: store where
  "example_store =
     [ObjStage (OpFrom (From ''bucket'')), ObjStage (OpPiped (RangeOffset (VTimedelta week_ago))),
      ObjList [4], ObjPipe 0 1 2, ObjStage OpLast, ObjStage (OpMap ''f''),
      ObjStage (OpSum ''x'')]"

section \<open>Parentheses in binary clauses\<close>

lemma should_parenthesize_iff:
  "should_parenthesize (BinaryClause op l r) s \<longleftrightarrow> op = AND \<and> is_or_clause s"
  by (cases op; cases s rule: is_or_clause.cases) (simp_all add: should_parenthesize_def)

lemma ensure_precedence_parenthesized:
  "ensure_precedence self other =
     parenthesized (precedence self < precedence other) (clause_to_flux other)"
  by (simp add: parenthesized_def should_parenthesize_def)

text \<open>
  C1 (as the code has it).  Rendering a \<open>BinaryClause\<close> renders its left side, the
  operation and its right side, separated by single spaces.  A side is put in parentheses
  if and only if the precedence number of the parent is strictly less than that of the
  side, that is: if and only if the side's number is strictly greater.  The numbers are 0
  for a literal, 7 for a comparison, 9 for \<open>and\<close>, 10 for \<open>or\<close>; so the only side
  that is ever parenthesized is an \<open>or\<close> clause directly under \<open>and\<close>.
\<close>

theorem binary_clause_parenthesizes_greater_precedence:
  "clause_to_flux (BinaryClause op l r) =
     parenthesized (precedence (BinaryClause op l r) < precedence l) (clause_to_flux l)
     @ '' '' @ binary_operation_value op @ '' '' @
     parenthesized (precedence (BinaryClause op l r) < precedence r) (clause_to_flux r)
   \<and> precedence (LiteralClause b) = 0
   \<and> precedence (ComparisonClause c n e) = 7
   \<and> precedence (BinaryClause AND x y) = 9
   \<and> precedence (BinaryClause OR x y) = 10
   \<and> (precedence (BinaryClause op l r) < precedence s \<longleftrightarrow> op = AND \<and> is_or_clause s)"
proof -
  have "should_parenthesize (BinaryClause op l r) s \<longleftrightarrow> op = AND \<and> is_or_clause s"
    by (rule should_parenthesize_iff)
  then show ?thesis
    by (simp add: ensure_precedence_parenthesized should_parenthesize_def
          del: ensure_precedence.simps)
qed

text \<open>
  The rule as C1 words it (parentheses if and only if the side's number is strictly less
  than the parent's) fails both ways.  In \<open>true or false\<close> the side \<open>true\<close> has the
  number 0, less than the parent's 10, and gets no parentheses; in
  \<open>(true or false) and true\<close> the left side has the number 10, not less than the
  parent's 9, and gets them.
\<close>

theorem parenthesize_lower_precedence_counterexample:
  "precedence (LiteralClause True)
     < precedence (BinaryClause OR (LiteralClause True) (LiteralClause False))
   \<and> clause_to_flux (BinaryClause OR (LiteralClause True) (LiteralClause False))
       = ''true or false''
   \<and> \<not> precedence (BinaryClause OR (LiteralClause True) (LiteralClause False))
         < precedence (BinaryClause AND
             (BinaryClause OR (LiteralClause True) (LiteralClause False)) (LiteralClause True))
   \<and> clause_to_flux (BinaryClause AND
         (BinaryClause OR (LiteralClause True) (LiteralClause False)) (LiteralClause True))
       = ''(true or false) and true''"
  by (simp add: should_parenthesize_def bool_to_flux_def)

text \<open>
  C2 (as the code has it).  For all clauses \<open>A\<close>, \<open>B\<close>, \<open>C\<close>, the clause
  \<open>(A and B) or C\<close> renders with no parentheses around its left operand \<open>A and B\<close> and
  none around \<open>C\<close>: the text is \<open>A' and B' or C\<close>, where \<open>A'\<close> is the text of \<open>A\<close>, in
  parentheses exactly when \<open>A\<close> is itself an \<open>or\<close> clause, and likewise \<open>B'\<close>.  For
  \<open>A\<close> and \<open>B\<close> that are not \<open>or\<close> clauses it is exactly \<open>A and B or C\<close>.
\<close>

theorem and_under_or_not_parenthesized:
  "clause_to_flux (BinaryClause OR (BinaryClause AND A B) C) =
     parenthesized (is_or_clause A) (clause_to_flux A) @ '' and '' @
     parenthesized (is_or_clause B) (clause_to_flux B) @ '' or '' @ clause_to_flux C"
proof -
  have top: "\<not> should_parenthesize (BinaryClause OR (BinaryClause AND A B) C) s" for s
    by (simp add: should_parenthesize_iff)
  have inner: "should_parenthesize (BinaryClause AND A B) s \<longleftrightarrow> is_or_clause s" for s
    by (simp add: should_parenthesize_iff)
  show ?thesis
    by (simp add: top inner parenthesized_def)
qed

text \<open>
  With \<open>A\<close> the clause \<open>true or false\<close>, the text of \<open>(A and B) or C\<close> is not the
  three texts put together with \<open>and\<close> and \<open>or\<close>: \<open>A\<close> is in parentheses.
\<close>

theorem and_under_or_exact_text_counterexample:
  "clause_to_flux (BinaryClause OR
      (BinaryClause AND (BinaryClause OR (LiteralClause True) (LiteralClause False))
         (LiteralClause True))
      (LiteralClause False))
     = ''(true or false) and true or false''
   \<and> clause_to_flux (BinaryClause OR (LiteralClause True) (LiteralClause False))
        @ '' and '' @ clause_to_flux (LiteralClause True)
        @ '' or '' @ clause_to_flux (LiteralClause False)
     = ''true or false and true or false''"
  by (simp add: should_parenthesize_def bool_to_flux_def)

section \<open>Rendering a pipe\<close>

lemma join_concat: "join sep (x # xs) = x @ concat (map ((@) sep) xs)"
  by (induction xs arbitrary: x) auto

lemma range_of_two_timestamps:
  "range_py (VDatetime a) (VDatetime b) = Inr (Range (VDatetime a) (VDatetime b))"
  by simp

lemma bucket_2020_2022_to_flux:
  \<open>rendering (pipe (VFrom (from_bucket ''bucket''))
      (Some (OpPiped (Range (VDatetime (datetime_new 2020 1 1 (Some timezone_utc)))
                            (VDatetime (datetime_new 2022 1 1 (Some timezone_utc)))))) [])
   = Some (''from(bucket: "bucket")'' @ ''\<newline>'' @
       ''|> range(start: 2020-01-01T00:00:00+00:00, stop: 2022-01-01T00:00:00+00:00)'')\<close>
  by code_simp

text \<open>
  C3.  Rendering a \<open>Pipe\<close> joins, in this order, the rendering of the source, the
  rendering of the range and the rendering of each operation with the separator made of
  a newline and \<open>|> \<close>: each text after the first comes right after one separator.  The
  pipe built from the source \<open>bucket\<close> and the range from 2020-01-01T00:00:00Z to
  2022-01-01T00:00:00Z (which \<open>range\<close> accepts) renders to
  \<open>from(bucket: "bucket")\<close>, a newline, and
  \<open>|> range(start: 2020-01-01T00:00:00+00:00, stop: 2022-01-01T00:00:00+00:00)\<close>.
\<close>

theorem pipe_to_flux_joins_stages:
  \<open>pipe_to_flux (Pipe s r ops) =
     join ''\<newline>|> '' (from_to_flux s # piped_to_flux r # map operation_to_flux ops)
   \<and> pipe_to_flux (Pipe s r ops) =
     from_to_flux s @ ''\<newline>|> '' @ piped_to_flux r
       @ concat (map (\<lambda>op. ''\<newline>|> '' @ operation_to_flux op) ops)
   \<and> range_py (VDatetime (datetime_new 2020 1 1 (Some timezone_utc)))
              (VDatetime (datetime_new 2022 1 1 (Some timezone_utc)))
       = Inr (Range (VDatetime (datetime_new 2020 1 1 (Some timezone_utc)))
                    (VDatetime (datetime_new 2022 1 1 (Some timezone_utc))))
   \<and> rendering (pipe (VFrom (from_bucket ''bucket''))
        (Some (OpPiped (Range (VDatetime (datetime_new 2020 1 1 (Some timezone_utc)))
                              (VDatetime (datetime_new 2022 1 1 (Some timezone_utc)))))) [])
       = Some (''from(bucket: "bucket")'' @ ''\<newline>'' @
           ''|> range(start: 2020-01-01T00:00:00+00:00, stop: 2022-01-01T00:00:00+00:00)'')\<close>
proof -
  have a: "pipe_to_flux (Pipe s r ops) =
      join ''\<newline>|> '' (from_to_flux s # piped_to_flux r # map operation_to_flux ops)"
    by (simp add: pipe_to_flux_def)
  have b: "join ''\<newline>|> '' (from_to_flux s # piped_to_flux r # map operation_to_flux ops) =
      from_to_flux s @ ''\<newline>|> '' @ piped_to_flux r
        @ concat (map (\<lambda>op. ''\<newline>|> '' @ operation_to_flux op) ops)"
    by (simp add: join_concat comp_def del: join.simps)
  show ?thesis
    using a b range_of_two_timestamps bucket_2020_2022_to_flux by simp
qed

section \<open>Building a pipe\<close>

text \<open>
  C4.  \<open>pipe(p)\<close> with no further argument returns \<open>p\<close> itself for every \<open>Pipe\<close> \<open>p\<close>,
  and \<open>pipe(q)\<close> returns \<open>q\<close> itself for every \<open>PartialPipe\<close> \<open>q\<close>; so \<open>pipe(p)\<close>
  renders as \<open>p\<close> does.  On the store: for a \<open>Pipe\<close> or a \<open>PartialPipe\<close> at any
  address of any store, the call returns that same address and leaves the store as it
  was.
\<close>

theorem pipe_of_one_argument_is_identity:
  "pipe (VPipe p) None [] = Inr (VPipe p)
   \<and> pipe (VPartialPipe q) None [] = Inr (VPartialPipe q)
   \<and> rendering (pipe (VPipe p) None []) = Some (pipe_to_flux p)
   \<and> rendering (pipe (VPipe p) None []) = rendering (Inr (VPipe p))
   \<and> pipe_store (h @ ObjPipe i r l # h2) (length h) None []
       = Inr (h @ ObjPipe i r l # h2, length h)
   \<and> pipe_store (h @ ObjPartialPipe i # h2) (length h) None []
       = Inr (h @ ObjPartialPipe i # h2, length h)"
  by (simp add: pipe_store_def lookup_def)

text \<open>
  C5.  For every source \<open>s\<close>, every range \<open>r\<close> (absolute or relative) and all
  operations \<open>op1\<close>, \<open>op2\<close>: \<open>pipe(pipe(s, r), op1, op2)\<close> returns what
  \<open>pipe(s, r, op1, op2)\<close> returns, a \<open>Pipe\<close> with the operations \<open>op1\<close>, \<open>op2\<close>, and
  both render to the same text.  (For a second argument that is no range both calls
  raise.)
\<close>

theorem pipe_in_two_steps_equals_one_step:
  "then_pipe (pipe (VFrom s) (Some r) []) (Some op1) [op2] = pipe (VFrom s) (Some r) [op1, op2]
   \<and> rendering (then_pipe (pipe (VFrom s) (Some r) []) (Some op1) [op2])
       = rendering (pipe (VFrom s) (Some r) [op1, op2])
   \<and> then_pipe (pipe (VFrom s) (Some (OpPiped (Range a b))) []) (Some op1) [op2]
       = Inr (VPipe (Pipe s (Range a b) [op1, op2]))
   \<and> then_pipe (pipe (VFrom s) (Some (OpPiped (RangeOffset d))) []) (Some op1) [op2]
       = Inr (VPipe (Pipe s (RangeOffset d) [op1, op2]))
   \<and> rendering (pipe (VFrom s) (Some (OpPiped (Range a b))) [op1, op2])
       = Some (pipe_to_flux (Pipe s (Range a b) [op1, op2]))
   \<and> rendering (pipe (VFrom s) (Some (OpPiped (RangeOffset d))) [op1, op2])
       = Some (pipe_to_flux (Pipe s (RangeOffset d) [op1, op2]))"
proof -
  have "then_pipe (pipe (VFrom s) (Some r) []) (Some op1) [op2]
          = pipe (VFrom s) (Some r) [op1, op2]"
    by (cases "(VFrom s, Some r, [] :: operation list)" rule: pipe.cases) auto
  then show ?thesis by simp
qed

section \<open>Formatting a duration\<close>

text \<open>
  C8.  For every duration the formatter gives the texts \<open><value><unit>\<close> of the
  components that are not zero, put together in the order days (\<open>d\<close>), seconds (\<open>s\<close>),
  microseconds (\<open>us\<close>); a component that is zero gives nothing.  The duration of 60
  seconds (also when built as one minute) renders as \<open>60s\<close>, that of -7 days as \<open>-7d\<close>,
  and the zero duration as the empty text.
\<close>

theorem timedelta_to_flux_nonzero_components:
  "timedelta_to_flux every =
     concat (map (\<lambda>(v, unit). str_int v @ unit)
       (filter (\<lambda>(v, unit). v \<noteq> 0)
          [(days every, ''d''), (seconds every, ''s''), (microseconds every, ''us'')]))
   \<and> timedelta_new 0 60 0 0 0 0 0 = Some \<lparr>days = 0, seconds = 60, microseconds = 0\<rparr>
   \<and> timedelta_new 0 0 0 0 1 0 0 = Some \<lparr>days = 0, seconds = 60, microseconds = 0\<rparr>
   \<and> timedelta_to_flux \<lparr>days = 0, seconds = 60, microseconds = 0\<rparr> = ''60s''
   \<and> timedelta_new (- 7) 0 0 0 0 0 0 = Some \<lparr>days = - 7, seconds = 0, microseconds = 0\<rparr>
   \<and> timedelta_to_flux \<lparr>days = - 7, seconds = 0, microseconds = 0\<rparr> = ''-7d''
   \<and> timedelta_new 0 0 0 0 0 0 0 = Some \<lparr>days = 0, seconds = 0, microseconds = 0\<rparr>
   \<and> timedelta_to_flux \<lparr>days = 0, seconds = 0, microseconds = 0\<rparr> = []"
proof -
  have general: "timedelta_to_flux every =
     concat (map (\<lambda>(v, unit). str_int v @ unit)
       (filter (\<lambda>(v, unit). v \<noteq> 0)
          [(days every, ''d''), (seconds every, ''s''), (microseconds every, ''us'')]))"
    by (simp add: timedelta_to_flux_def part_def)
  have sixty: "timedelta_to_flux \<lparr>days = 0, seconds = 60, microseconds = 0\<rparr> = ''60s''"
    by code_simp
  have week: "timedelta_to_flux \<lparr>days = - 7, seconds = 0, microseconds = 0\<rparr> = ''-7d''"
    by code_simp
  have zero: "timedelta_to_flux \<lparr>days = 0, seconds = 0, microseconds = 0\<rparr> = []"
    by code_simp
  have new: "timedelta_new 0 60 0 0 0 0 0 = Some \<lparr>days = 0, seconds = 60, microseconds = 0\<rparr>"
    "timedelta_new 0 0 0 0 1 0 0 = Some \<lparr>days = 0, seconds = 60, microseconds = 0\<rparr>"
    "timedelta_new (- 7) 0 0 0 0 0 0 = Some \<lparr>days = - 7, seconds = 0, microseconds = 0\<rparr>"
    "timedelta_new 0 0 0 0 0 0 0 = Some \<lparr>days = 0, seconds = 0, microseconds = 0\<rparr>"
    by (simp_all add: timedelta_new_def)
  from general sixty week zero new show ?thesis by blast
qed

section \<open>Range arguments\<close>

text \<open>
  C6 (what the code does where the claim fails).  \<open>range\<close> with a duration as its first
  argument returns the relative range whatever the second argument is: for the duration
  of -7 days together with the timestamp 2022-01-01T00:00:00Z it returns
  \<open>RangeOffset\<close> of -7 days and raises nothing.  A timestamp together with a second
  argument that is no timestamp (a string) gives a \<open>Range\<close> as well; only a timestamp
  with no second argument, or a first argument that is neither, raises.
\<close>

theorem range_duration_with_stop_is_accepted:
  "range_py (VTimedelta \<lparr>days = - 7, seconds = 0, microseconds = 0\<rparr>)
        (VDatetime (datetime_new 2022 1 1 (Some timezone_utc)))
      = Inr (RangeOffset (VTimedelta \<lparr>days = - 7, seconds = 0, microseconds = 0\<rparr>))
   \<and> range_py (VTimedelta t) stop = Inr (RangeOffset (VTimedelta t))
   \<and> range_py (VDatetime d) (VStr x) = Inr (Range (VDatetime d) (VStr x))
   \<and> range_py (VDatetime d) VNone = Inl InvalidTypes
   \<and> range_py (VStr x) stop = Inl InvalidTypes"
  by simp

section \<open>Values without a case in the formatter\<close>

text \<open>
  C7 (what the code does where the claim fails).  For \<open>None\<close>, an \<open>int\<close> or a tuple
  the formatter \<open>_to_flux\<close> matches no case and returns \<open>None\<close>; it raises nothing, and
  the stage that holds the value renders with the text \<open>None\<close> in its place:
  \<open>Drop\<close> of the tuple \<open>("topic",)\<close> renders as \<open>drop(columns: None)\<close>.
\<close>

theorem value_to_flux_unsupported_returns_none:
  "value_to_flux VNone = None
   \<and> value_to_flux (VInt n) = None
   \<and> value_to_flux (VTuple xs) = None
   \<and> piped_to_flux (Drop (VTuple [''topic''])) = ''drop(columns: None)''"
proof -
  have "piped_to_flux (Drop (VTuple [''topic''])) = ''drop(columns: None)''"
    by code_simp
  then show ?thesis by simp
qed

section \<open>Objects that a call of pipe leaves alone\<close>

text \<open>What reads back from a store reads back the same from a store that preserves it.\<close>

lemma preserved_length: "preserved h h' \<Longrightarrow> length h \<le> length h'"
proof -
  assume "preserved h h'"
  then have "length (take (length h) h') = length h" by (simp add: preserved_def)
  then show ?thesis by simp
qed

lemma preserved_lookup: "preserved h h' \<Longrightarrow> lookup h a = Some x \<Longrightarrow> lookup h' a = Some x"
proof -
  assume p: "preserved h h'" and l: "lookup h a = Some x"
  from l have a: "a < length h" and x: "h ! a = x"
    by (auto simp: lookup_def split: if_splits)
  from p have "take (length h) h' ! a = h ! a" by (simp add: preserved_def)
  with a have "h' ! a = h ! a" by simp
  moreover from p a have "a < length h'" using preserved_length by fastforce
  ultimately show ?thesis using x by (simp add: lookup_def)
qed

lemma preserved_stage_at:
  assumes "preserved h h'" and "stage_at h a = Some s"
  shows "stage_at h' a = Some s"
proof -
  from assms(2) have "lookup h a = Some (ObjStage s)"
    by (auto simp: stage_at_def split: option.splits obj.splits)
  then have "lookup h' a = Some (ObjStage s)" using assms(1) by (rule preserved_lookup [rotated])
  then show ?thesis by (simp add: stage_at_def)
qed

lemma preserved_stages_at:
  "preserved h h' \<Longrightarrow> stages_at h as = Some ss \<Longrightarrow> stages_at h' as = Some ss"
proof (induction as arbitrary: ss)
  case Nil
  then show ?case by simp
next
  case (Cons a as)
  from Cons.prems(2) obtain s rest where s: "stage_at h a = Some s"
    and rest: "stages_at h as = Some rest" and ss: "ss = s # rest"
    by (auto split: option.splits)
  from Cons.prems(1) s have "stage_at h' a = Some s" by (rule preserved_stage_at)
  moreover from Cons.IH [OF Cons.prems(1) rest] have "stages_at h' as = Some rest" .
  ultimately show ?case using ss by simp
qed

lemma preserved_source_at:
  assumes "preserved h h'" and "source_at h a = Some s"
  shows "source_at h' a = Some s"
proof -
  from assms(2) have "stage_at h a = Some (OpFrom s)"
    by (auto simp: source_at_def split: option.splits operation.splits)
  with assms(1) have "stage_at h' a = Some (OpFrom s)" by (rule preserved_stage_at)
  then show ?thesis by (simp add: source_at_def)
qed

lemma preserved_range_at:
  assumes "preserved h h'" and "range_at h a = Some f"
  shows "range_at h' a = Some f"
proof -
  from assms(2) have "stage_at h a = Some (OpPiped f)"
    by (auto simp: range_at_def split: option.splits operation.splits)
  with assms(1) have "stage_at h' a = Some (OpPiped f)" by (rule preserved_stage_at)
  then show ?thesis by (simp add: range_at_def)
qed

lemma preserved_list_at:
  assumes "preserved h h'" and "list_at h a = Some ss"
  shows "list_at h' a = Some ss"
proof -
  from assms(2) obtain xs where l: "lookup h a = Some (ObjList xs)"
    and xs: "stages_at h xs = Some ss"
    by (auto simp: list_at_def split: option.splits obj.splits)
  from assms(1) l have "lookup h' a = Some (ObjList xs)" by (rule preserved_lookup)
  moreover from assms(1) xs have "stages_at h' xs = Some ss" by (rule preserved_stages_at)
  ultimately show ?thesis by (simp add: list_at_def)
qed

lemma value_at_cases:
  assumes "value_at h a = Some v"
  obtains (From) s where "lookup h a = Some (ObjStage (OpFrom s))" "v = VFrom s"
  | (Partial) i s where "lookup h a = Some (ObjPartialPipe i)" "source_at h i = Some s"
      "v = VPartialPipe (PartialPipe s)"
  | (Pipe) i r l s f xs where "lookup h a = Some (ObjPipe i r l)" "source_at h i = Some s"
      "range_at h r = Some f" "list_at h l = Some xs" "v = VPipe (Pipe s f xs)"
  using assms unfolding value_at_def
  by (auto split: option.splits obj.splits operation.splits)

lemma preserved_value_at:
  assumes p: "preserved h h'" and v: "value_at h a = Some v"
  shows "value_at h' a = Some v"
  using v
proof (cases rule: value_at_cases)
  case (From s)
  from p From(1) have "lookup h' a = Some (ObjStage (OpFrom s))" by (rule preserved_lookup)
  then show ?thesis using From(2) by (simp add: value_at_def)
next
  case (Partial i s)
  from p Partial(1) have "lookup h' a = Some (ObjPartialPipe i)" by (rule preserved_lookup)
  moreover from p Partial(2) have "source_at h' i = Some s" by (rule preserved_source_at)
  ultimately show ?thesis using Partial(3) by (simp add: value_at_def)
next
  case (Pipe i r l s f xs)
  from p Pipe(1) have "lookup h' a = Some (ObjPipe i r l)" by (rule preserved_lookup)
  moreover from p Pipe(2) have "source_at h' i = Some s" by (rule preserved_source_at)
  moreover from p Pipe(3) have "range_at h' r = Some f" by (rule preserved_range_at)
  moreover from p Pipe(4) have "list_at h' l = Some xs" by (rule preserved_list_at)
  ultimately show ?thesis using Pipe(5) by (simp add: value_at_def)
qed

lemma preserved_new_pipe: "new_pipe h i r xs = (h', res) \<Longrightarrow> preserved h h'"
  by (auto simp: preserved_def alloc_def new_pipe_def)

lemma new_pipe_result:
  "new_pipe h i r xs = (h', res) \<Longrightarrow>
     res = Suc (length h) \<and> lookup h' res = Some (ObjPipe i r (length h))
     \<and> lookup h' (length h) = Some (ObjList xs)"
  by (auto simp: alloc_def new_pipe_def lookup_def nth_append)

lemma pipe_store_preserved:
  "pipe_store h first snd_arg ops = Inr (h', res) \<Longrightarrow> preserved h h'"
  unfolding pipe_store_def
  by (auto split: option.splits obj.splits operation.splits if_splits
       simp: preserved_def alloc_def new_pipe_def)

lemma pipe_store_appends:
  assumes "pipe_store h first (Some op) ops = Inr (h', res)"
    and "lookup h first = Some (ObjPipe i r l)" and "lookup h l = Some (ObjList xs)"
  shows "res = Suc (length h) \<and> lookup h' res = Some (ObjPipe i r (length h))
     \<and> lookup h' (length h) = Some (ObjList (xs @ op # ops))"
  using assms by (auto simp: pipe_store_def dest: new_pipe_result)

text \<open>
  The two models of \<open>pipe\<close> agree: when the arguments read back from the store as
  values, \<open>pipe\<close> on the store raises what \<open>pipe\<close> on the values raises, or returns an
  address where the value that \<open>pipe\<close> on the values returns reads back.
\<close>

lemma stages_at_append:
  "stages_at h as = Some xs \<Longrightarrow> stages_at h bs = Some ys \<Longrightarrow> stages_at h (as @ bs) = Some (xs @ ys)"
  by (induction as arbitrary: xs) (auto split: option.splits)

lemma is_range_pipe:
  assumes "is_range st"
  obtains f where "st = OpPiped f"
    "pipe (VFrom s) (Some st) ops = Inr (VPipe (Pipe s f ops))"
    "pipe (VPartialPipe (PartialPipe s)) (Some st) ops = Inr (VPipe (Pipe s f ops))"
  using assms by (cases st rule: is_range.cases) auto

lemma not_range_pipe:
  assumes "\<not> is_range st"
  shows "pipe (VFrom s) (Some st) ops = Inl InvalidTypes"
    and "pipe (VPartialPipe q) (Some st) ops = Inl InvalidTypes"
  using assms by (cases st rule: is_range.cases; simp)+

lemma is_range_obj_stage: "stage_at h r = Some st \<Longrightarrow> is_range_obj (lookup h r) = is_range st"
  by (auto simp: stage_at_def split: option.splits obj.splits)

lemma value_at_new_pipe:
  assumes n: "new_pipe h i r as = (h', res)"
    and s: "source_at h i = Some s" and f: "range_at h r = Some f"
    and xs: "stages_at h as = Some xs"
  shows "value_at h' res = Some (VPipe (Pipe s f xs))"
proof -
  from n have p: "preserved h h'" by (rule preserved_new_pipe)
  from n have res: "lookup h' res = Some (ObjPipe i r (length h))"
    and l: "lookup h' (length h) = Some (ObjList as)"
    using new_pipe_result by blast+
  from p s have "source_at h' i = Some s" by (rule preserved_source_at)
  moreover from p f have "range_at h' r = Some f" by (rule preserved_range_at)
  moreover from p xs have "stages_at h' as = Some xs" by (rule preserved_stages_at)
  with l have "list_at h' (length h) = Some xs" by (simp add: list_at_def)
  ultimately show ?thesis using res by (simp add: value_at_def)
qed

lemma value_at_new_partial:
  assumes "source_at h i = Some s"
  shows "value_at (h @ [ObjPartialPipe i]) (length h) = Some (VPartialPipe (PartialPipe s))"
proof -
  have "preserved h (h @ [ObjPartialPipe i])" by (simp add: preserved_def)
  then have "source_at (h @ [ObjPartialPipe i]) i = Some s"
    using assms by (rule preserved_source_at)
  then show ?thesis by (simp add: value_at_def lookup_def)
qed

lemma pipe_store_refines_pipe:
  assumes v: "value_at h first = Some v"
    and a: "arg_at h snd_arg = Some snd_val"
    and o: "stages_at h ops = Some ops_val"
  shows "case pipe_store h first snd_arg ops of
           Inl e \<Rightarrow> pipe v snd_val ops_val = Inl e
         | Inr (h', res) \<Rightarrow> \<exists>v'. value_at h' res = Some v' \<and> pipe v snd_val ops_val = Inr v'"
proof (cases snd_arg)
  case None
  with a have sv: "snd_val = None" by (simp add: arg_at_def)
  from v show ?thesis
  proof (cases rule: value_at_cases)
    case (From s)
    then have src: "source_at h first = Some s" by (simp add: source_at_def stage_at_def)
    show ?thesis using From None sv value_at_new_partial [OF src]
      by (simp add: pipe_store_def alloc_def)
  next
    case (Partial i s)
    then show ?thesis using None sv v by (simp add: pipe_store_def)
  next
    case (Pipe i r l s f xs)
    then show ?thesis using None sv v by (simp add: pipe_store_def)
  qed
next
  case (Some x)
  with a obtain st where st: "stage_at h x = Some st" and sv: "snd_val = Some st"
    by (auto simp: arg_at_def split: option.splits)
  note ro = is_range_obj_stage [OF st]
  from v show ?thesis
  proof (cases rule: value_at_cases)
    case (From s)
    then have src: "source_at h first = Some s" by (simp add: source_at_def stage_at_def)
    show ?thesis
    proof (cases "is_range st")
      case True
      then obtain f where f: "st = OpPiped f"
        and p: "pipe (VFrom s) (Some st) ops_val = Inr (VPipe (Pipe s f ops_val))"
        by (rule is_range_pipe)
      from st f have "range_at h x = Some f" by (simp add: range_at_def)
      then have "value_at (fst (new_pipe h first x ops)) (snd (new_pipe h first x ops))
          = Some (VPipe (Pipe s f ops_val))"
        using value_at_new_pipe [OF _ src _ o] by (metis prod.collapse)
      then show ?thesis using From Some sv True ro p
        by (auto simp: pipe_store_def split: prod.splits)
    next
      case False
      then show ?thesis using From Some sv ro not_range_pipe(1)
        by (simp add: pipe_store_def)
    qed
  next
    case (Partial i s)
    show ?thesis
    proof (cases "is_range st")
      case True
      then obtain f where f: "st = OpPiped f"
        and p: "pipe (VPartialPipe (PartialPipe s)) (Some st) ops_val
                  = Inr (VPipe (Pipe s f ops_val))"
        by (rule is_range_pipe)
      from st f have "range_at h x = Some f" by (simp add: range_at_def)
      then have "value_at (fst (new_pipe h i x ops)) (snd (new_pipe h i x ops))
          = Some (VPipe (Pipe s f ops_val))"
        using value_at_new_pipe [OF _ Partial(2) _ o] by (metis prod.collapse)
      then show ?thesis using Partial Some sv True ro p
        by (auto simp: pipe_store_def split: prod.splits)
    next
      case False
      then show ?thesis using Partial Some sv ro not_range_pipe(2)
        by (simp add: pipe_store_def)
    qed
  next
    case (Pipe i r l s f xs)
    from Pipe(4) obtain as where l: "lookup h l = Some (ObjList as)"
      and as: "stages_at h as = Some xs"
      by (auto simp: list_at_def split: option.splits obj.splits)
    from st o have "stages_at h ([x] @ ops) = Some ([st] @ ops_val)" by simp
    with as have all: "stages_at h (as @ [x] @ ops) = Some (xs @ [st] @ ops_val)"
      by (rule stages_at_append)
    have "value_at (fst (new_pipe h i r (as @ [x] @ ops))) (snd (new_pipe h i r (as @ [x] @ ops)))
          = Some (VPipe (Pipe s f (xs @ [st] @ ops_val)))"
      using value_at_new_pipe [OF _ Pipe(2) Pipe(3) all] by (metis prod.collapse)
    then show ?thesis using Pipe Some sv l
      by (auto simp: pipe_store_def split: prod.splits)
  qed
qed

text \<open>
  C9.  A call \<open>pipe(p, ...)\<close> that returns never changes an object that was there
  before it: every object of the store is at its address, unchanged, after the call; so
  \<open>p\<close>, read back with its source, its range and its sequence of operations, is what it
  was.  When \<open>p\<close> is a \<open>Pipe\<close> and the call appends, the \<open>Pipe\<close> returned is a new
  object with the source and the range of \<open>p\<close> and with a new list: the operations of
  \<open>p\<close>, then the second argument, then the further arguments in their order.
\<close>

theorem pipe_never_mutates_its_argument:
  assumes "pipe_store h first snd_arg ops = Inr (h', res)"
  shows "preserved h h'
    \<and> (\<forall>a x. lookup h a = Some x \<longrightarrow> lookup h' a = Some x)
    \<and> (\<forall>v. value_at h first = Some v \<longrightarrow> value_at h' first = Some v)
    \<and> (\<forall>i r l xs op.
          lookup h first = Some (ObjPipe i r l) \<and> lookup h l = Some (ObjList xs)
            \<and> snd_arg = Some op
          \<longrightarrow> res = Suc (length h) \<and> lookup h' res = Some (ObjPipe i r (length h))
              \<and> lookup h' (length h) = Some (ObjList (xs @ op # ops)))
    \<and> pipe (VPipe p) (Some op') ops'
        = Inr (VPipe (Pipe (initial p) (range_stage p) (operations p @ op' # ops')))"
proof -
  from assms have p: "preserved h h'" by (rule pipe_store_preserved)
  have look: "\<forall>a x. lookup h a = Some x \<longrightarrow> lookup h' a = Some x"
    using p preserved_lookup by blast
  have val: "\<forall>v. value_at h first = Some v \<longrightarrow> value_at h' first = Some v"
    using p preserved_value_at by blast
  have app: "\<forall>i r l xs op.
          lookup h first = Some (ObjPipe i r l) \<and> lookup h l = Some (ObjList xs)
            \<and> snd_arg = Some op
          \<longrightarrow> res = Suc (length h) \<and> lookup h' res = Some (ObjPipe i r (length h))
              \<and> lookup h' (length h) = Some (ObjList (xs @ op # ops))"
    using assms pipe_store_appends by blast
  have "pipe (VPipe p) (Some op') ops'
        = Inr (VPipe (Pipe (initial p) (range_stage p) (operations p @ op' # ops')))"
    by simp
  with p look val app show ?thesis by blast
qed

text \<open>
  In \<open>example_store\<close> the \<open>Pipe\<close> at address 3 holds one operation.  Appending two
  more returns a new \<open>Pipe\<close> at address 8 with a new list at address 7, and the \<open>Pipe\<close>
  at address 3 still reads back with its one operation.
\<close>

theorem pipe_never_mutates_its_argument_witness:
  "pipe_store example_store 3 (Some 5) [6]
     = Inr (example_store @ [ObjList [4, 5, 6], ObjPipe 0 1 7], 8)
   \<and> preserved example_store (example_store @ [ObjList [4, 5, 6], ObjPipe 0 1 7])
   \<and> value_at example_store 3
       = Some (VPipe (Pipe (From ''bucket'') (RangeOffset (VTimedelta week_ago)) [OpLast]))
   \<and> value_at (example_store @ [ObjList [4, 5, 6], ObjPipe 0 1 7]) 3
       = Some (VPipe (Pipe (From ''bucket'') (RangeOffset (VTimedelta week_ago)) [OpLast]))
   \<and> value_at (example_store @ [ObjList [4, 5, 6], ObjPipe 0 1 7]) 8
       = Some (VPipe (Pipe (From ''bucket'') (RangeOffset (VTimedelta week_ago))
                 [OpLast, OpMap ''f'', OpSum ''x'']))"
proof -
  have call: "pipe_store example_store 3 (Some 5) [6]
     = Inr (example_store @ [ObjList [4, 5, 6], ObjPipe 0 1 7], 8)"
    by (simp add: example_store_def pipe_store_def lookup_def new_pipe_def alloc_def)
  have before: "value_at example_store 3
       = Some (VPipe (Pipe (From ''bucket'') (RangeOffset (VTimedelta week_ago)) [OpLast]))"
    by (simp add: example_store_def value_at_def lookup_def source_at_def range_at_def
          list_at_def stage_at_def)
  have after: "value_at (example_store @ [ObjList [4, 5, 6], ObjPipe 0 1 7]) 8
       = Some (VPipe (Pipe (From ''bucket'') (RangeOffset (VTimedelta week_ago))
                 [OpLast, OpMap ''f'', OpSum ''x'']))"
    by (simp add: example_store_def value_at_def lookup_def source_at_def range_at_def
          list_at_def stage_at_def)
  from pipe_never_mutates_its_argument [OF call] before after call show ?thesis
    by blast
qed

section \<open>The predicate helpers on empty input\<close>

lemma reduce_from_total:
  "\<forall>x \<in> set xs. \<exists>c. x = Inr c \<Longrightarrow> \<exists>c. reduce_from f acc xs = Inr c"
  by (induction xs arbitrary: acc) auto

lemma reduce_total:
  "xs \<noteq> [] \<Longrightarrow> \<forall>x \<in> set xs. \<exists>c. x = Inr c \<Longrightarrow> \<exists>c. reduce f xs = Inr c"
  by (cases xs) (auto simp: reduce_from_total)

lemma field_eq_str: "is_str v \<Longrightarrow> \<exists>c. field_eq (Field k) v = Inr c"
  by (cases v) auto

text \<open>With at least one pair, and strings for values, \<open>conform\<close> does give a clause.\<close>

lemma conform_total:
  assumes "m \<noteq> []" "\<forall>(k, v) \<in> set m. is_str v"
  shows "\<exists>cl. conform m row = Inr (CClause cl)"
proof -
  let ?xs = "map (\<lambda>(key, v). field_eq (row_getitem row key) v) m"
  have "?xs \<noteq> []" using assms(1) by simp
  moreover have "\<forall>x \<in> set ?xs. \<exists>c. x = Inr c"
    using assms(2) by (auto simp: row_getitem_def field_eq_str simp del: field_eq.simps)
  ultimately obtain c where "reduce (\<lambda>acc cur. clause_and acc (CClause cur)) ?xs = Inr c"
    using reduce_total by blast
  then show ?thesis by (simp add: conform_def)
qed

text \<open>
  C10.  For the empty mapping, calling the predicate that \<open>conform\<close> returns raises (the
  fold has no first element: the \<open>TypeError\<close> of \<open>reduce\<close>), and so does the predicate
  that \<open>any\<close> returns for the empty list of values; \<open>filter\<close>, which calls the
  predicate it is given, raises the same for \<open>conform\<close> of the empty mapping.  Whenever
  one of the two predicates returns, what it returns is a clause and the mapping (the list
  of values) has at least one element.
\<close>

theorem conform_and_any_need_an_element:
  "conform [] row = Inl ReduceEmptyTypeError
   \<and> any_py test [] row = Inl ReduceEmptyTypeError
   \<and> filter_py (conform []) = Inl ReduceEmptyTypeError
   \<and> (conform m row = Inr c \<longrightarrow> m \<noteq> [] \<and> (\<exists>cl. c = CClause cl))
   \<and> (any_py test vs row = Inr c \<longrightarrow> vs \<noteq> [] \<and> (\<exists>cl. c = CClause cl))"
  by (auto simp: conform_def any_py_def filter_py_def split: sum.splits)

theorem conform_and_any_need_an_element_witness:
  "conform [(''topic'', VStr ''test_topic'')] Row
      = Inr (CClause (ComparisonClause EQ ''topic'' (LiteralStringExpression ''test_topic'')))
   \<and> [(''topic'', VStr ''test_topic'')] \<noteq> []
   \<and> any_py conform [[(''topic'', VStr ''test_topic'')]] Row
      = Inr (CClause (ComparisonClause EQ ''topic'' (LiteralStringExpression ''test_topic'')))
   \<and> [[(''topic'', VStr ''test_topic'')]] \<noteq> []"
  using conform_and_any_need_an_element
     [where row = Row and m = "[(''topic'', VStr ''test_topic'')]"
      and c = "CClause (ComparisonClause EQ ''topic'' (LiteralStringExpression ''test_topic''))"
      and test = conform and vs = "[[(''topic'', VStr ''test_topic'')]]"]
  by (simp add: conform_def any_py_def row_getitem_def)

end
